theory Spec2Isabelle
  imports Complex_Main "HOL-Library.Word" "HOL-Library.Sublist"
begin

unbundle bit_operations_syntax

section \<open>Python values and exceptions\<close>

text \<open>
  \<^verbatim>\<open>response.json()\<close> hands the program whatever JSON document the server sent, decoded
  into Python objects: \<^verbatim>\<open>None\<close>, \<^verbatim>\<open>bool\<close>, \<^verbatim>\<open>int\<close> (unbounded), \<^verbatim>\<open>float\<close>, \<^verbatim>\<open>str\<close>,
  \<^verbatim>\<open>list\<close> and \<^verbatim>\<open>dict\<close> with string keys. The program only tests a float for being zero
  (truthiness), so a float is kept as the number it denotes, or one of the three special
  values Python's decoder accepts. A dict is an association list: a key counts once, with
  its first binding.
\<close>

datatype pyfloat = Finite real | Infinity | NegInfinity | NaN

datatype json =
    JNull
  | JBool bool
  | JInt int
  | JFloat pyfloat
  | JString string
  | JArray "json list"
  | JObject "(string \<times> json) list"

text \<open>
  The exceptions the two API functions and the handlers can meet. All of them are
  subclasses of \<^verbatim>\<open>Exception\<close>. \<open>KeyError\<close> carries the missing key, \<open>HTTPError\<close> the
  status code, \<open>TelegramError\<close> the chat platform's complaint.
\<close>

datatype exn =
    TypeError
  | KeyError json
  | IndexError
  | AttributeError
  | Timeout
  | ConnectionError
  | HTTPError nat
  | JSONDecodeError
  | TelegramError string

text \<open>
  The texts that \<^verbatim>\<open>str(e)\<close> gives for an exception and that \<^verbatim>\<open>str(v)\<close> gives for a
  value that is not a string belong to the interpreter and the libraries; the program
  only pastes them into its messages. They are parameters of the model.
\<close>

record builtins =
  str_exn :: "exn \<Rightarrow> string"
  str_value :: "json \<Rightarrow> string"

text \<open>An f-string field \<^verbatim>\<open>{v}\<close>: a \<^verbatim>\<open>str\<close> is pasted as it is.\<close>

fun py_format :: "builtins \<Rightarrow> json \<Rightarrow> string" where
  "py_format B (JString s) = s"
| "py_format B v = str_value B v"

fun and_then :: "exn + 'a \<Rightarrow> ('a \<Rightarrow> exn + 'b) \<Rightarrow> exn + 'b" where
  "and_then (Inl e) f = Inl e"
| "and_then (Inr v) f = f v"

text \<open>\<^verbatim>\<open>a and b\<close> evaluates \<^verbatim>\<open>b\<close> only when \<^verbatim>\<open>a\<close> is true.\<close>

fun py_and :: "exn + bool \<Rightarrow> exn + bool \<Rightarrow> exn + bool" where
  "py_and (Inl e) b = Inl e"
| "py_and (Inr False) b = Inr False"
| "py_and (Inr True) b = b"

text \<open>
  \<^verbatim>\<open>k in x\<close> for a string \<^verbatim>\<open>k\<close>: key membership in a dict, element membership in a
  list, substring test in a string, \<^verbatim>\<open>TypeError\<close> for anything else.
\<close>

fun py_in :: "string \<Rightarrow> json \<Rightarrow> exn + bool" where
  "py_in k (JObject kvs) = Inr (map_of kvs k \<noteq> None)"
| "py_in k (JArray xs) = Inr (JString k \<in> set xs)"
| "py_in k (JString s) = Inr (sublist k s)"
| "py_in k v = Inl TypeError"

text \<open>\<^verbatim>\<open>len(x)\<close>: a dict counts its keys.\<close>

fun py_len :: "json \<Rightarrow> exn + nat" where
  "py_len (JObject kvs) = Inr (length (remdups (map fst kvs)))"
| "py_len (JArray xs) = Inr (length xs)"
| "py_len (JString s) = Inr (length s)"
| "py_len v = Inl TypeError"

text \<open>\<^verbatim>\<open>x[k]\<close> for a string \<^verbatim>\<open>k\<close>: lists and strings want integer indices.\<close>

fun py_getitem :: "json \<Rightarrow> string \<Rightarrow> exn + json" where
  "py_getitem (JObject kvs) k =
     (case map_of kvs k of None \<Rightarrow> Inl (KeyError (JString k)) | Some v \<Rightarrow> Inr v)"
| "py_getitem v k = Inl TypeError"

text \<open>
  \<^verbatim>\<open>x[i]\<close> for an integer \<^verbatim>\<open>i\<close>: negative indices count from the end; a dict decoded
  from JSON has string keys only, so an integer is always a missing key.
\<close>

definition py_index :: "'a list \<Rightarrow> int \<Rightarrow> exn + 'a" where
  "py_index xs i =
     (if 0 \<le> i \<and> nat i < length xs then Inr (xs ! nat i)
      else if i < 0 \<and> nat (- i) \<le> length xs then Inr (xs ! (length xs - nat (- i)))
      else Inl IndexError)"

fun py_getitem_int :: "json \<Rightarrow> int \<Rightarrow> exn + json" where
  "py_getitem_int (JArray xs) i = py_index xs i"
| "py_getitem_int (JString s) i = and_then (py_index s i) (\<lambda>c. Inr (JString [c]))"
| "py_getitem_int (JObject kvs) i = Inl (KeyError (JInt i))"
| "py_getitem_int v i = Inl TypeError"

text \<open>\<^verbatim>\<open>x.get(k, d)\<close>: only a dict has the method.\<close>

fun py_get :: "json \<Rightarrow> string \<Rightarrow> json \<Rightarrow> exn + json" where
  "py_get (JObject kvs) k d = Inr (case map_of kvs k of None \<Rightarrow> d | Some v \<Rightarrow> v)"
| "py_get v k d = Inl AttributeError"

text \<open>Truth value of an object in a condition.\<close>

fun py_truthy :: "json \<Rightarrow> bool" where
  "py_truthy JNull = False"
| "py_truthy (JBool b) = b"
| "py_truthy (JInt i) = (i \<noteq> 0)"
| "py_truthy (JFloat (Finite r)) = (r \<noteq> 0)"
| "py_truthy (JFloat f) = True"
| "py_truthy (JString s) = (s \<noteq> [])"
| "py_truthy (JArray xs) = (xs \<noteq> [])"
| "py_truthy (JObject kvs) = (kvs \<noteq> [])"

section \<open>The response normalizers\<close>

text \<open>
  Lines 41 to 52 of \<^verbatim>\<open>call_gemini_api\<close>: the chain of presence checks on the decoded
  response, before the exception handler around it. \<open>Inl\<close> is an exception raised by
  one of the checks.
\<close>

definition stopped_message :: "builtins \<Rightarrow> json \<Rightarrow> string" where
  "stopped_message B reason =
     ''Generation stopped: '' @ py_format B reason @ ''. Try a different question.''"

definition blocked_message :: "builtins \<Rightarrow> json \<Rightarrow> string" where
  "blocked_message B reason = ''Request blocked: '' @ py_format B reason @ ''.''"

definition non_empty :: "json \<Rightarrow> exn + bool" where
  "non_empty v = and_then (py_len v) (\<lambda>n. Inr (n > 0))"

definition normalize_text :: "builtins \<Rightarrow> json \<Rightarrow> exn + json" where
  "normalize_text B response_json =
     and_then
       (py_and (py_in ''candidates'' response_json)
               (and_then (py_getitem response_json ''candidates'') non_empty))
       (\<lambda>has_candidates.
          if has_candidates then
            and_then (and_then (py_getitem response_json ''candidates'')
                               (\<lambda>cs. py_getitem_int cs 0))
              (\<lambda>candidate.
                 and_then
                   (py_and (py_in ''content'' candidate)
                      (py_and (and_then (py_getitem candidate ''content'') (py_in ''parts''))
                              (and_then (and_then (py_getitem candidate ''content'')
                                                  (\<lambda>c. py_getitem c ''parts''))
                                        non_empty)))
                   (\<lambda>has_parts.
                      if has_parts then
                        and_then (and_then (and_then (py_getitem candidate ''content'')
                                                     (\<lambda>c. py_getitem c ''parts''))
                                           (\<lambda>ps. py_getitem_int ps 0))
                          (\<lambda>part. py_get part ''text'' (JString ''No text found in the response.''))
                      else
                        and_then (py_in ''finishReason'' candidate)
                          (\<lambda>has_reason.
                             if has_reason then
                               and_then (py_getitem candidate ''finishReason'')
                                 (\<lambda>r. Inr (JString (stopped_message B r)))
                             else
                               Inr (JString
                                 ''Failed to process the response from the AI (unexpected structure).''))))
          else
            and_then
              (py_and (py_in ''promptFeedback'' response_json)
                      (and_then (py_getitem response_json ''promptFeedback'')
                                (py_in ''blockReason'')))
              (\<lambda>blocked.
                 if blocked then
                   and_then (and_then (py_getitem response_json ''promptFeedback'')
                                      (\<lambda>f. py_getitem f ''blockReason''))
                     (\<lambda>r. Inr (JString (blocked_message B r)))
                 else
                   Inr (JString ''Failed to get a valid response from the AI.'')))"

text \<open>Lines 84 to 87 of \<^verbatim>\<open>call_gemini_with_image\<close>.\<close>

definition normalize_image :: "json \<Rightarrow> exn + json" where
  "normalize_image response_json =
     and_then
       (py_and (py_in ''candidates'' response_json)
               (and_then (py_getitem response_json ''candidates'') (\<lambda>cs. Inr (py_truthy cs))))
       (\<lambda>has_candidates.
          if has_candidates then
            and_then (py_getitem response_json ''candidates'') (\<lambda>cs.
            and_then (py_getitem_int cs 0) (\<lambda>candidate.
            and_then (py_getitem candidate ''content'') (\<lambda>content.
            and_then (py_getitem content ''parts'') (\<lambda>parts.
            and_then (py_getitem_int parts 0) (\<lambda>part.
              py_get part ''text'' (JString ''No response text found.''))))))
          else
            Inr (JString ''Couldn't get a valid response from the AI.''))"

section \<open>Effects\<close>

text \<open>
  What a call leaves behind: the requests that were posted (one per call of
  \<^verbatim>\<open>requests.post\<close>, whether it returns or raises), the log records, and the
  traffic with the chat platform (typing indicators, every attempt to send a reply, and
  the replies that were delivered).
\<close>

record request =
  url :: string
  headers :: "(string \<times> string) list"
  payload :: json
  timeout :: nat

datatype level = INFO | ERROR

record world =
  posts :: "request list"
  logged :: "(level \<times> string) list"
  chat_actions :: "int list"
  reply_attempts :: "json list"
  replies :: "json list"

text \<open>
  A coroutine of the program: it changes the world and either returns a value (\<open>Inr\<close>)
  or lets an exception out (\<open>Inl\<close>).
\<close>

type_synonym 'a io = "world \<Rightarrow> (exn + 'a) \<times> world"

definition lift :: "exn + 'a \<Rightarrow> 'a io" where
  "lift r w = (r, w)"

definition io_bind :: "'a io \<Rightarrow> ('a \<Rightarrow> 'b io) \<Rightarrow> 'b io" where
  "io_bind m f w = (case m w of (Inl e, w') \<Rightarrow> (Inl e, w') | (Inr v, w') \<Rightarrow> f v w')"

text \<open>\<^verbatim>\<open>try: m  except Exception as e: h\<close>\<close>

definition try_except :: "'a io \<Rightarrow> (exn \<Rightarrow> 'a io) \<Rightarrow> 'a io" where
  "try_except m h w = (case m w of (Inl e, w') \<Rightarrow> h e w' | (Inr v, w') \<Rightarrow> (Inr v, w'))"

definition logger :: "level \<Rightarrow> string \<Rightarrow> unit io" where
  "logger lv msg w = (Inr (), w\<lparr>logged := logged w @ [(lv, msg)]\<rparr>)"

section \<open>The inference client\<close>

text \<open>
  \<^verbatim>\<open>requests.post\<close> either raises (\<^verbatim>\<open>Timeout\<close>, \<^verbatim>\<open>ConnectionError\<close>) or returns a response
  with a status code and a body; \<open>json_body\<close> is \<open>None\<close> when the body is not a JSON
  document. The network decides the outcome of a post from the requests posted before it
  and the request itself.
\<close>

record response =
  status_code :: nat
  json_body :: "json option"

type_synonym network = "request list \<Rightarrow> request \<Rightarrow> exn + response"

definition requests_post :: "network \<Rightarrow> request \<Rightarrow> response io" where
  "requests_post net rq w = (net (posts w) rq, w\<lparr>posts := posts w @ [rq]\<rparr>)"

text \<open>
  \<^verbatim>\<open>Response.raise_for_status\<close> of the requests library raises \<^verbatim>\<open>HTTPError\<close> for the client
  and server error codes, 400 to 599, and returns for every other code.
\<close>

definition raise_for_status :: "response \<Rightarrow> exn + unit" where
  "raise_for_status r =
     (if 400 \<le> status_code r \<and> status_code r < 600 then Inl (HTTPError (status_code r))
      else Inr ())"

definition response_json :: "response \<Rightarrow> exn + json" where
  "response_json r = (case json_body r of None \<Rightarrow> Inl JSONDecodeError | Some j \<Rightarrow> Inr j)"

text \<open>
  A transport-level failure of a post, with the exception it surfaces as: the post itself
  raises (a timeout, a connection error), or the answer carries an error status, for which
  the status check raises.
\<close>

definition transport_failure :: "exn + response \<Rightarrow> exn \<Rightarrow> bool" where
  "transport_failure outcome e =
     (case outcome of
        Inl raised \<Rightarrow> e = raised
      | Inr r \<Rightarrow> 400 \<le> status_code r \<and> status_code r < 600 \<and> e = HTTPError (status_code r))"

definition gemini_request :: "string \<Rightarrow> json \<Rightarrow> request" where
  "gemini_request api_url data =
     \<lparr>url = api_url, headers = [(''Content-Type'', ''application/json'')], payload = data,
      timeout = 60\<rparr>"

definition text_payload :: "string \<Rightarrow> json" where
  "text_payload prompt =
     JObject [(''contents'', JArray [JObject [(''parts'',
       JArray [JObject [(''text'', JString prompt)]])]])]"

text \<open>
  \<^verbatim>\<open>call_gemini_api\<close>, lines 27 to 56. The \<^verbatim>\<open>try\<close> block is one post, the status check,
  the decoding and the normalizer; the handler logs and returns a string.
\<close>

definition call_gemini_api :: "builtins \<Rightarrow> string \<Rightarrow> network \<Rightarrow> string \<Rightarrow> json io" where
  "call_gemini_api B api_url net prompt =
     try_except
       (io_bind (requests_post net (gemini_request api_url (text_payload prompt)))
          (\<lambda>response. lift
             (and_then (raise_for_status response) (\<lambda>_.
              and_then (response_json response) (normalize_text B)))))
       (\<lambda>e. io_bind (logger ERROR (''Error during request to Gemini API: '' @ str_exn B e))
          (\<lambda>_. lift (Inr (JString (''Sorry, an error occurred: '' @ str_exn B e)))))"

subsection \<open>Base64\<close>

text \<open>
  \<^verbatim>\<open>base64.b64encode\<close> (RFC 4648, section 4): three bytes become four characters of the
  alphabet, six bits each; a last group of one or two bytes is padded with \<^verbatim>\<open>=\<close>. The
  result is ASCII, so \<^verbatim>\<open>.decode('utf-8')\<close> yields the same characters.
\<close>

type_synonym byte = "8 word"

definition b64_alphabet :: string where
  "b64_alphabet = ''ABCDEFGHIJKLMNOPQRSTUVWXYZabcdefghijklmnopqrstuvwxyz0123456789+/''"

definition b64_char :: "byte \<Rightarrow> char" where
  "b64_char x = b64_alphabet ! unat x"

fun b64encode :: "byte list \<Rightarrow> string" where
  "b64encode (a # b # c # rest) =
     [b64_char (drop_bit 2 a),
      b64_char (push_bit 4 (a AND 3) OR drop_bit 4 b),
      b64_char (push_bit 2 (b AND 15) OR drop_bit 6 c),
      b64_char (c AND 63)] @ b64encode rest"
| "b64encode [a, b] =
     [b64_char (drop_bit 2 a),
      b64_char (push_bit 4 (a AND 3) OR drop_bit 4 b),
      b64_char (push_bit 2 (b AND 15)),
      CHR ''='']"
| "b64encode [a] =
     [b64_char (drop_bit 2 a), b64_char (push_bit 4 (a AND 3)), CHR ''='', CHR ''='']"
| "b64encode [] = []"

text \<open>
  The inverse direction, \<^verbatim>\<open>base64.b64decode\<close> on padded input over the alphabet: four
  characters give three bytes, a padded last group one or two; anything else is rejected.
\<close>

definition b64_value :: "char \<Rightarrow> byte option" where
  "b64_value c = map_of (zip b64_alphabet (map of_nat [0..<64])) c"

fun b64decode :: "string \<Rightarrow> byte list option" where
  "b64decode [] = Some []"
| "b64decode (c0 # c1 # c2 # c3 # rest) =
     (if rest = [] \<and> c2 = CHR ''='' \<and> c3 = CHR ''='' then
        (case (b64_value c0, b64_value c1) of
           (Some x0, Some x1) \<Rightarrow> Some [push_bit 2 x0 OR drop_bit 4 x1]
         | _ \<Rightarrow> None)
      else if rest = [] \<and> c3 = CHR ''='' then
        (case (b64_value c0, b64_value c1, b64_value c2) of
           (Some x0, Some x1, Some x2) \<Rightarrow>
             Some [push_bit 2 x0 OR drop_bit 4 x1, push_bit 4 x1 OR drop_bit 2 x2]
         | _ \<Rightarrow> None)
      else
        (case (b64_value c0, b64_value c1, b64_value c2, b64_value c3) of
           (Some x0, Some x1, Some x2, Some x3) \<Rightarrow>
             (case b64decode rest of
                Some bs \<Rightarrow>
                  Some ([push_bit 2 x0 OR drop_bit 4 x1, push_bit 4 x1 OR drop_bit 2 x2,
                         push_bit 6 x2 OR x3] @ bs)
              | None \<Rightarrow> None)
         | _ \<Rightarrow> None))"
| "b64decode cs = None"

subsection \<open>The image call\<close>

definition image_payload :: "string \<Rightarrow> byte list \<Rightarrow> json" where
  "image_payload prompt image_bytes =
     (let base64_image = b64encode image_bytes
      in JObject [(''contents'', JArray [JObject [(''parts'',
           JArray [JObject [(''text'', JString prompt)],
                   JObject [(''inlineData'',
                     JObject [(''mimeType'', JString ''image/jpeg''),
                              (''data'', JString base64_image)])]])]])])"

text \<open>\<^verbatim>\<open>call_gemini_with_image\<close>, lines 59 to 91.\<close>

definition call_gemini_with_image ::
  "builtins \<Rightarrow> string \<Rightarrow> network \<Rightarrow> string \<Rightarrow> byte list \<Rightarrow> json io" where
  "call_gemini_with_image B api_url net prompt image_bytes =
     try_except
       (io_bind (requests_post net (gemini_request api_url (image_payload prompt image_bytes)))
          (\<lambda>response. lift
             (and_then (raise_for_status response) (\<lambda>_.
              and_then (response_json response) normalize_image))))
       (\<lambda>e. io_bind (logger ERROR (''Error processing image: '' @ str_exn B e))
          (\<lambda>_. lift (Inr (JString (''An error occurred: '' @ str_exn B e)))))"

section \<open>The relay dispatcher\<close>

text \<open>
  The chat platform as the handlers see it: each call may fail. Whether a reply is
  accepted may depend on the attempts made before it and on the text.
\<close>

type_synonym photo_size = string

record platform =
  send_chat_action :: "int \<Rightarrow> exn option"
  reply_text :: "json list \<Rightarrow> json \<Rightarrow> exn option"
  get_file :: "photo_size \<Rightarrow> exn + string"
  download_as_bytearray :: "string \<Rightarrow> exn + byte list"

record update =
  message_text :: string
  message_photo :: "photo_size list"
  effective_chat_id :: int
  effective_user_username :: "string option"

definition bot_send_chat_action :: "platform \<Rightarrow> int \<Rightarrow> unit io" where
  "bot_send_chat_action tg chat w =
     (case send_chat_action tg chat of
        Some e \<Rightarrow> (Inl e, w)
      | None \<Rightarrow> (Inr (), w\<lparr>chat_actions := chat_actions w @ [chat]\<rparr>))"

definition message_reply_text :: "platform \<Rightarrow> json \<Rightarrow> unit io" where
  "message_reply_text tg txt w =
     (case reply_text tg (reply_attempts w) txt of
        Some e \<Rightarrow> (Inl e, w\<lparr>reply_attempts := reply_attempts w @ [txt]\<rparr>)
      | None \<Rightarrow> (Inr (), w\<lparr>reply_attempts := reply_attempts w @ [txt],
                             replies := replies w @ [txt]\<rparr>))"

text \<open>An f-string field holding a value that may be \<^verbatim>\<open>None\<close>.\<close>

fun format_optional :: "string option \<Rightarrow> string" where
  "format_optional None = ''None''"
| "format_optional (Some s) = s"

text \<open>\<^verbatim>\<open>handle_message\<close>, lines 110 to 122.\<close>

definition handle_message ::
  "builtins \<Rightarrow> string \<Rightarrow> network \<Rightarrow> platform \<Rightarrow> update \<Rightarrow> unit io" where
  "handle_message B api_url net tg upd =
     (let user_message = message_text upd;
          chat_id = effective_chat_id upd
      in io_bind (logger INFO (''Text from '' @ format_optional (effective_user_username upd)
                                 @ '': '' @ user_message)) (\<lambda>_.
         io_bind (bot_send_chat_action tg chat_id) (\<lambda>_.
         io_bind (call_gemini_api B api_url net user_message) (\<lambda>ai_response.
           try_except (message_reply_text tg ai_response)
             (\<lambda>e. io_bind (logger ERROR (''Failed to send reply message: '' @ str_exn B e)) (\<lambda>_.
                   message_reply_text tg
                     (JString ''An error occurred while sending the reply.'')))))))"

text \<open>\<^verbatim>\<open>handle_image\<close>, lines 125 to 140.\<close>

definition handle_image ::
  "builtins \<Rightarrow> string \<Rightarrow> network \<Rightarrow> platform \<Rightarrow> update \<Rightarrow> unit io" where
  "handle_image B api_url net tg upd =
     (let chat_id = effective_chat_id upd;
          photos = message_photo upd
      in if photos = [] then message_reply_text tg (JString ''No image found.'')
         else
           io_bind (lift (and_then (py_index photos (- 1)) (get_file tg))) (\<lambda>photo_file.
           io_bind (lift (download_as_bytearray tg photo_file)) (\<lambda>photo_bytes.
           let prompt = ''What is in this image?''
           in io_bind (bot_send_chat_action tg chat_id) (\<lambda>_.
              io_bind (call_gemini_with_image B api_url net prompt photo_bytes) (\<lambda>ai_response.
                message_reply_text tg ai_response)))))"

section \<open>Fixtures\<close>

text \<open>
  Concrete surroundings for the statements that run the program on one input: an
  interpreter that describes an exception by its class name, a world in which nothing has
  happened yet, a network on which every post raises, a server that answers every post with a given
  status and body, and a chat
  platform that turns down the first reply it is asked to send and accepts the later ones.
\<close>

fun class_name :: "exn \<Rightarrow> string" where
  "class_name TypeError = ''TypeError''"
| "class_name (KeyError k) = ''KeyError''"
| "class_name IndexError = ''IndexError''"
| "class_name AttributeError = ''AttributeError''"
| "class_name Timeout = ''Timeout''"
| "class_name ConnectionError = ''ConnectionError''"
| "class_name (HTTPError n) = ''HTTPError''"
| "class_name JSONDecodeError = ''JSONDecodeError''"
| "class_name (TelegramError m) = m"

definition plain_builtins :: builtins where
  "plain_builtins = \<lparr>str_exn = class_name, str_value = (\<lambda>v. ''?'')\<rparr>"

definition fresh_world :: world where
  "fresh_world = \<lparr>posts = [], logged = [], chat_actions = [], reply_attempts = [], replies = []\<rparr>"

definition network_raises :: "exn \<Rightarrow> network" where
  "network_raises e history rq = Inl e"

definition server_answers :: "nat \<Rightarrow> json \<Rightarrow> network" where
  "server_answers code body history rq = Inr \<lparr>status_code = code, json_body = Some body\<rparr>"

definition first_reply_rejected :: platform where
  "first_reply_rejected =
     \<lparr>send_chat_action = (\<lambda>chat. None),
      reply_text = (\<lambda>attempts txt. if attempts = [] then Some (TelegramError ''Bad Request'') else None),
      get_file = (\<lambda>photo. Inr photo),
      download_as_bytearray = (\<lambda>file. Inr [255, 216, 255])\<rparr>"

section \<open>What a call amounts to\<close>

text \<open>
  Both API functions post exactly one request. Whatever the \<^verbatim>\<open>try\<close> block raises ends in
  the handler, which adds one log record and returns a string.
\<close>

lemma call_gemini_api_unfold:
  "call_gemini_api B api_url net prompt w =
     (case and_then (net (posts w) (gemini_request api_url (text_payload prompt)))
             (\<lambda>r. and_then (raise_for_status r) (\<lambda>_.
                  and_then (response_json r) (normalize_text B))) of
        Inr v \<Rightarrow> (Inr v, w\<lparr>posts := posts w @ [gemini_request api_url (text_payload prompt)]\<rparr>)
      | Inl e \<Rightarrow>
          (Inr (JString (''Sorry, an error occurred: '' @ str_exn B e)),
           w\<lparr>posts := posts w @ [gemini_request api_url (text_payload prompt)],
             logged := logged w @ [(ERROR, ''Error during request to Gemini API: '' @ str_exn B e)]\<rparr>))"
  by (simp add: call_gemini_api_def try_except_def io_bind_def lift_def requests_post_def
      logger_def split: sum.splits)

lemma call_gemini_with_image_unfold:
  "call_gemini_with_image B api_url net prompt image_bytes w =
     (case and_then (net (posts w) (gemini_request api_url (image_payload prompt image_bytes)))
             (\<lambda>r. and_then (raise_for_status r) (\<lambda>_.
                  and_then (response_json r) normalize_image)) of
        Inr v \<Rightarrow>
          (Inr v, w\<lparr>posts := posts w @ [gemini_request api_url (image_payload prompt image_bytes)]\<rparr>)
      | Inl e \<Rightarrow>
          (Inr (JString (''An error occurred: '' @ str_exn B e)),
           w\<lparr>posts := posts w @ [gemini_request api_url (image_payload prompt image_bytes)],
             logged := logged w @ [(ERROR, ''Error processing image: '' @ str_exn B e)]\<rparr>))"
  by (simp add: call_gemini_with_image_def try_except_def io_bind_def lift_def requests_post_def
      logger_def split: sum.splits)

lemma text_flow_answered:
  "fst (call_gemini_api B api_url (server_answers 200 j) prompt w) =
     (case normalize_text B j of
        Inr v \<Rightarrow> Inr v
      | Inl e \<Rightarrow> Inr (JString (''Sorry, an error occurred: '' @ str_exn B e)))"
  by (simp add: call_gemini_api_unfold server_answers_def raise_for_status_def response_json_def
      split: sum.splits)

lemma image_flow_answered:
  "fst (call_gemini_with_image B api_url (server_answers 200 j) prompt image_bytes w) =
     (case normalize_image j of
        Inr v \<Rightarrow> Inr v
      | Inl e \<Rightarrow> Inr (JString (''An error occurred: '' @ str_exn B e)))"
  by (simp add: call_gemini_with_image_unfold server_answers_def raise_for_status_def
      response_json_def split: sum.splits)

section \<open>Facts about the primitives\<close>

lemma and_then_Inr: "and_then m f = Inr v \<longleftrightarrow> (\<exists>u. m = Inr u \<and> f u = Inr v)"
  by (cases m) auto

lemma py_getitem_Inr:
  "py_getitem x k = Inr v \<longleftrightarrow> (\<exists>kvs. x = JObject kvs \<and> map_of kvs k = Some v)"
  by (cases x) (auto split: option.splits)

lemma py_getitem_int_0_Inr:
  "py_getitem_int x 0 = Inr v \<longleftrightarrow>
     (\<exists>xs. x = JArray (v # xs)) \<or> (\<exists>c s. x = JString (c # s) \<and> v = JString [c])"
proof (cases x)
  case (JArray xs)
  then show ?thesis by (cases xs) (auto simp: py_index_def)
next
  case (JString s)
  then show ?thesis by (cases s) (auto simp: py_index_def)
qed auto

lemma py_get_Inr:
  "py_get x k d = Inr v \<longleftrightarrow>
     (\<exists>kvs. x = JObject kvs \<and> v = (case map_of kvs k of None \<Rightarrow> d | Some t \<Rightarrow> t))"
  by (cases x) auto

section \<open>The branches of the normalizers\<close>

text \<open>
  Once \<^verbatim>\<open>candidates[0].content.parts[0]\<close> exists and is an object, the text flow returns
  whatever is stored under \<^verbatim>\<open>text\<close>, or the default string of \<^verbatim>\<open>.get\<close>.
\<close>

lemma normalize_text_first_part:
  assumes "map_of kvs ''candidates'' = Some (JArray (JObject c # cs))"
      and "map_of c ''content'' = Some (JObject ct)"
      and "map_of ct ''parts'' = Some (JArray (JObject p # ps))"
  shows "normalize_text B (JObject kvs) =
           Inr (case map_of p ''text'' of
                  None \<Rightarrow> JString ''No text found in the response.''
                | Some t \<Rightarrow> t)"
  using assms by (simp add: normalize_text_def non_empty_def py_index_def)

text \<open>
  The text flow has five \<^verbatim>\<open>return\<close> statements. Whatever the normalizer returns is the
  text found along the full path (or the default of \<^verbatim>\<open>.get\<close>), a generation-stopped
  message, a request-blocked message, or one of the two fixed diagnostics.
\<close>

lemma blocked_branch_results:
  assumes "and_then
              (py_and (py_in ''promptFeedback'' j)
                      (and_then (py_getitem j ''promptFeedback'') (py_in ''blockReason'')))
              (\<lambda>blocked.
                 if blocked then
                   and_then (and_then (py_getitem j ''promptFeedback'')
                                      (\<lambda>f. py_getitem f ''blockReason''))
                     (\<lambda>r. Inr (JString (blocked_message B r)))
                 else
                   Inr (JString ''Failed to get a valid response from the AI.'')) = Inr v"
  shows "(\<exists>reason. v = JString (blocked_message B reason))
         \<or> v = JString ''Failed to get a valid response from the AI.''"
  using assms by (auto simp: and_then_Inr split: if_splits)

lemma text_branch_results:
  assumes "and_then (and_then (and_then (py_getitem candidate ''content'')
                                         (\<lambda>c. py_getitem c ''parts''))
                               (\<lambda>ps. py_getitem_int ps 0))
              (\<lambda>part. py_get part ''text'' d) = Inr v"
  shows "\<exists>c ct p ps.
            candidate = JObject c
            \<and> map_of c ''content'' = Some (JObject ct)
            \<and> map_of ct ''parts'' = Some (JArray (JObject p # ps))
            \<and> v = (case map_of p ''text'' of None \<Rightarrow> d | Some t \<Rightarrow> t)"
proof -
  from assms obtain part where
      part: "and_then (and_then (py_getitem candidate ''content'') (\<lambda>c. py_getitem c ''parts''))
               (\<lambda>ps. py_getitem_int ps 0) = Inr part"
    and got: "py_get part ''text'' d = Inr v"
    by (auto simp: and_then_Inr)
  from got obtain p where p: "part = JObject p"
      and v: "v = (case map_of p ''text'' of None \<Rightarrow> d | Some t \<Rightarrow> t)"
    by (auto simp: py_get_Inr)
  from part obtain parts where
      parts: "and_then (py_getitem candidate ''content'') (\<lambda>c. py_getitem c ''parts'') = Inr parts"
    and first: "py_getitem_int parts 0 = Inr part"
    by (auto simp: and_then_Inr)
  from first p obtain ps where ps: "parts = JArray (JObject p # ps)"
    by (auto simp: py_getitem_int_0_Inr)
  from parts obtain content where
      content: "py_getitem candidate ''content'' = Inr content"
    and inner: "py_getitem content ''parts'' = Inr parts"
    by (auto simp: and_then_Inr)
  from content obtain c where c: "candidate = JObject c" "map_of c ''content'' = Some content"
    by (auto simp: py_getitem_Inr)
  from inner obtain ct where ct: "content = JObject ct" "map_of ct ''parts'' = Some parts"
    by (auto simp: py_getitem_Inr)
  from c ct ps v show ?thesis by blast
qed

lemma stopped_branch_results:
  assumes "and_then (py_in ''finishReason'' candidate)
              (\<lambda>has_reason.
                 if has_reason then
                   and_then (py_getitem candidate ''finishReason'')
                     (\<lambda>r. Inr (JString (stopped_message B r)))
                 else
                   Inr (JString
                     ''Failed to process the response from the AI (unexpected structure).'')) = Inr v"
  shows "(\<exists>reason. v = JString (stopped_message B reason))
         \<or> v = JString ''Failed to process the response from the AI (unexpected structure).''"
  using assms by (auto simp: and_then_Inr split: if_splits)

lemma and_then_InrE:
  assumes "and_then m f = Inr v"
  obtains u where "m = Inr u" and "f u = Inr v"
  using assms by (cases m) auto

lemma normalize_text_results:
  assumes "normalize_text B j = Inr v"
  shows "(\<exists>kvs c cs ct p ps.
            j = JObject kvs
            \<and> map_of kvs ''candidates'' = Some (JArray (JObject c # cs))
            \<and> map_of c ''content'' = Some (JObject ct)
            \<and> map_of ct ''parts'' = Some (JArray (JObject p # ps))
            \<and> v = (case map_of p ''text'' of
                     None \<Rightarrow> JString ''No text found in the response.''
                   | Some t \<Rightarrow> t))
         \<or> (\<exists>reason. v = JString (stopped_message B reason))
         \<or> v = JString ''Failed to process the response from the AI (unexpected structure).''
         \<or> (\<exists>reason. v = JString (blocked_message B reason))
         \<or> v = JString ''Failed to get a valid response from the AI.''"
proof -
  let ?blocked = "and_then
              (py_and (py_in ''promptFeedback'' j)
                      (and_then (py_getitem j ''promptFeedback'') (py_in ''blockReason'')))
              (\<lambda>blocked.
                 if blocked then
                   and_then (and_then (py_getitem j ''promptFeedback'')
                                      (\<lambda>f. py_getitem f ''blockReason''))
                     (\<lambda>r. Inr (JString (blocked_message B r)))
                 else
                   Inr (JString ''Failed to get a valid response from the AI.''))"
  let ?stopped = "\<lambda>candidate. and_then (py_in ''finishReason'' candidate)
              (\<lambda>has_reason.
                 if has_reason then
                   and_then (py_getitem candidate ''finishReason'')
                     (\<lambda>r. Inr (JString (stopped_message B r)))
                 else
                   Inr (JString
                     ''Failed to process the response from the AI (unexpected structure).''))"
  let ?text = "\<lambda>candidate. and_then (and_then (and_then (py_getitem candidate ''content'')
                                         (\<lambda>c. py_getitem c ''parts''))
                               (\<lambda>ps. py_getitem_int ps 0))
              (\<lambda>part. py_get part ''text'' (JString ''No text found in the response.''))"
  let ?has_parts = "\<lambda>candidate. py_and (py_in ''content'' candidate)
                      (py_and (and_then (py_getitem candidate ''content'') (py_in ''parts''))
                              (and_then (and_then (py_getitem candidate ''content'')
                                                  (\<lambda>c. py_getitem c ''parts''))
                                        non_empty))"
  let ?first = "and_then (py_getitem j ''candidates'') (\<lambda>cs. py_getitem_int cs 0)"
  let ?on_candidate = "\<lambda>candidate. and_then (?has_parts candidate)
                         (\<lambda>has_parts. if has_parts then ?text candidate else ?stopped candidate)"
  from assms have "and_then
       (py_and (py_in ''candidates'' j) (and_then (py_getitem j ''candidates'') non_empty))
       (\<lambda>has_candidates. if has_candidates then and_then ?first ?on_candidate else ?blocked)
     = Inr v"
    by (simp only: normalize_text_def)
  then obtain has_candidates where
      rest: "(if has_candidates then and_then ?first ?on_candidate else ?blocked) = Inr v"
    by (rule and_then_InrE)
  show ?thesis
  proof (cases has_candidates)
    case False
    with rest have "?blocked = Inr v" by (simp only: if_False)
    from blocked_branch_results [OF this] show ?thesis by blast
  next
    case True
    with rest have "and_then ?first ?on_candidate = Inr v" by (simp only: if_True)
    then obtain candidate where first: "?first = Inr candidate"
      and inner: "?on_candidate candidate = Inr v"
      by (rule and_then_InrE)
    from inner obtain has_parts where
        branch: "(if has_parts then ?text candidate else ?stopped candidate) = Inr v"
      by (rule and_then_InrE)
    show ?thesis
    proof (cases has_parts)
      case False
      with branch have "?stopped candidate = Inr v" by (simp only: if_False)
      from stopped_branch_results [OF this] show ?thesis by blast
    next
      case True
      with branch have "?text candidate = Inr v" by (simp only: if_True)
      from text_branch_results [OF this] obtain c ct p ps where
          path: "candidate = JObject c" "map_of c ''content'' = Some (JObject ct)"
                "map_of ct ''parts'' = Some (JArray (JObject p # ps))"
                "v = (case map_of p ''text'' of
                        None \<Rightarrow> JString ''No text found in the response.'' | Some t \<Rightarrow> t)"
        by blast
      from first obtain cands where
          cands: "py_getitem j ''candidates'' = Inr cands" "py_getitem_int cands 0 = Inr candidate"
        by (rule and_then_InrE)
      from cands(1) obtain kvs where kvs: "j = JObject kvs" "map_of kvs ''candidates'' = Some cands"
        by (auto simp: py_getitem_Inr)
      from cands(2) path(1) obtain cs where "cands = JArray (JObject c # cs)"
        by (auto simp: py_getitem_int_0_Inr)
      with kvs path show ?thesis by blast
    qed
  qed
qed

text \<open>
  Seen from outside, \<^verbatim>\<open>call_gemini_api\<close> lets no exception out, whatever the network
  does: every exception of the \<^verbatim>\<open>try\<close> block is a subclass of \<^verbatim>\<open>Exception\<close> and ends in the
  handler of line 54. On a successful answer with body \<open>j\<close> it returns the outcome of one
  of its \<^verbatim>\<open>return\<close> statements; the first of them hands back whatever object is stored
  under \<^verbatim>\<open>text\<close>.
\<close>

lemma call_gemini_api_results:
  "(\<exists>v. fst (call_gemini_api B api_url net prompt w) = Inr v)
   \<and> (\<exists>v. fst (call_gemini_api B api_url (server_answers 200 j) prompt w) = Inr v
          \<and> ((\<exists>kvs c cs ct p ps.
                  j = JObject kvs
                  \<and> map_of kvs ''candidates'' = Some (JArray (JObject c # cs))
                  \<and> map_of c ''content'' = Some (JObject ct)
                  \<and> map_of ct ''parts'' = Some (JArray (JObject p # ps))
                  \<and> v = (case map_of p ''text'' of
                           None \<Rightarrow> JString ''No text found in the response.''
                         | Some t \<Rightarrow> t))
              \<or> (\<exists>reason. v = JString (stopped_message B reason))
              \<or> v = JString ''Failed to process the response from the AI (unexpected structure).''
              \<or> (\<exists>reason. v = JString (blocked_message B reason))
              \<or> v = JString ''Failed to get a valid response from the AI.''
              \<or> (\<exists>e. v = JString (''Sorry, an error occurred: '' @ str_exn B e))))"
proof (rule conjI)
  show "\<exists>v. fst (call_gemini_api B api_url net prompt w) = Inr v"
    by (simp add: call_gemini_api_unfold split: sum.splits)
next
  show "\<exists>v. fst (call_gemini_api B api_url (server_answers 200 j) prompt w) = Inr v
          \<and> ((\<exists>kvs c cs ct p ps.
                  j = JObject kvs
                  \<and> map_of kvs ''candidates'' = Some (JArray (JObject c # cs))
                  \<and> map_of c ''content'' = Some (JObject ct)
                  \<and> map_of ct ''parts'' = Some (JArray (JObject p # ps))
                  \<and> v = (case map_of p ''text'' of
                           None \<Rightarrow> JString ''No text found in the response.''
                         | Some t \<Rightarrow> t))
              \<or> (\<exists>reason. v = JString (stopped_message B reason))
              \<or> v = JString ''Failed to process the response from the AI (unexpected structure).''
              \<or> (\<exists>reason. v = JString (blocked_message B reason))
              \<or> v = JString ''Failed to get a valid response from the AI.''
              \<or> (\<exists>e. v = JString (''Sorry, an error occurred: '' @ str_exn B e)))"
  proof (cases "normalize_text B j")
    case (Inl e)
    then have "fst (call_gemini_api B api_url (server_answers 200 j) prompt w)
                 = Inr (JString (''Sorry, an error occurred: '' @ str_exn B e))"
      by (simp add: text_flow_answered)
    then show ?thesis by blast
  next
    case (Inr v)
    then have "fst (call_gemini_api B api_url (server_answers 200 j) prompt w) = Inr v"
      by (simp add: text_flow_answered)
    with normalize_text_results [OF Inr] show ?thesis by blast
  qed
qed

text \<open>
  The image flow has two \<^verbatim>\<open>return\<close> statements: one for the text (or the default of
  \<^verbatim>\<open>.get\<close>) found along the full path, one for the generic failure.
\<close>

lemma normalize_image_results:
  assumes "normalize_image j = Inr v"
  shows "v = JString ''Couldn't get a valid response from the AI.''
         \<or> (\<exists>kvs c cs ct p ps.
               j = JObject kvs
               \<and> map_of kvs ''candidates'' = Some (JArray (JObject c # cs))
               \<and> map_of c ''content'' = Some (JObject ct)
               \<and> map_of ct ''parts'' = Some (JArray (JObject p # ps))
               \<and> v = (case map_of p ''text'' of
                        None \<Rightarrow> JString ''No response text found.''
                      | Some t \<Rightarrow> t))"
  using assms unfolding normalize_image_def
  by (auto simp: and_then_Inr py_getitem_Inr py_getitem_int_0_Inr py_get_Inr split: if_splits)

lemma normalize_image_no_candidates:
  assumes "map_of kvs ''candidates'' = None \<or> map_of kvs ''candidates'' = Some (JArray [])"
  shows "normalize_image (JObject kvs) = Inr (JString ''Couldn't get a valid response from the AI.'')"
  using assms by (auto simp: normalize_image_def)

section \<open>Base64 decoding inverts encoding\<close>

lemma b64_alphabet_distinct: "distinct b64_alphabet"
  by (simp add: b64_alphabet_def)

lemma b64_alphabet_length: "length b64_alphabet = 64"
  by (simp add: b64_alphabet_def)

lemma byte_eqI:
  assumes "\<And>n. n \<in> {0, 1, 2, 3, 4, 5, 6, 7} \<Longrightarrow> bit a n = bit b n"
  shows "a = (b::byte)"
proof (rule bit_word_eqI)
  fix n assume "n < LENGTH(8)"
  then have "n \<in> {0, 1, 2, 3, 4, 5, 6, 7}" by auto
  then show "bit a n = bit b n" by (rule assms)
qed

lemma and_3: "(a::byte) AND 3 = take_bit 2 a"
  using take_bit_eq_mask [of 2 a] by (simp add: mask_numeral)

lemma and_15: "(a::byte) AND 15 = take_bit 4 a"
  using take_bit_eq_mask [of 4 a] by (simp add: mask_numeral)

lemma and_63: "(a::byte) AND 63 = take_bit 6 a"
  using take_bit_eq_mask [of 6 a] by (simp add: mask_numeral)

lemma six_bits_bound:
  assumes "take_bit 6 (x::byte) = x"
  shows "unat x < 64"
proof -
  from assms have "unat x = take_bit 6 (unat x)"
    by (metis unsigned_take_bit_eq)
  also have "\<dots> < 2 ^ 6" by (rule take_bit_nat_less_exp)
  finally show ?thesis by simp
qed

lemma b64_value_char:
  assumes "take_bit 6 (x::byte) = x"
  shows "b64_value (b64_char x) = Some x"
proof -
  have "unat x < 64" using assms by (rule six_bits_bound)
  then show ?thesis
    unfolding b64_value_def b64_char_def
    by (subst map_of_zip_nth) (simp_all add: b64_alphabet_distinct b64_alphabet_length)
qed

lemma b64_char_not_padding:
  assumes "take_bit 6 (x::byte) = x"
  shows "b64_char x \<noteq> CHR ''=''"
proof -
  have "unat x < 64" using assms by (rule six_bits_bound)
  then have "b64_char x \<in> set b64_alphabet"
    by (simp add: b64_char_def b64_alphabet_length)
  moreover have "CHR ''='' \<notin> set b64_alphabet"
    by (simp add: b64_alphabet_def)
  ultimately show ?thesis by auto
qed

lemma six_bits:
  "take_bit 6 (drop_bit 2 (a::byte)) = drop_bit 2 a"
  "take_bit 6 (push_bit 4 (take_bit 2 a) OR drop_bit 4 (b::byte))
     = push_bit 4 (take_bit 2 a) OR drop_bit 4 b"
  "take_bit 6 (push_bit 2 (take_bit 4 b) OR drop_bit 6 (c::byte))
     = push_bit 2 (take_bit 4 b) OR drop_bit 6 c"
  "take_bit 6 (push_bit 4 (take_bit 2 a)) = push_bit 4 (take_bit 2 a)"
  "take_bit 6 (push_bit 2 (take_bit 4 b)) = push_bit 2 (take_bit 4 b)"
  "take_bit 6 (take_bit 6 c) = take_bit 6 c"
  by (rule byte_eqI; auto simp: bit_simps dest: bit_imp_le_length)+

lemmas b64_value_six_bits = six_bits [THEN b64_value_char]
lemmas b64_char_six_bits = six_bits [THEN b64_char_not_padding]

lemma regrouped_bytes:
  "push_bit 2 (drop_bit 2 a) OR drop_bit 4 (push_bit 4 (take_bit 2 a)) = (a::byte)"
  "push_bit 4 (drop_bit 4 b) OR drop_bit 2 (push_bit 2 (take_bit 4 b)) = (b::byte)"
  "push_bit 6 (drop_bit 6 c) OR take_bit 6 c = (c::byte)"
  by (rule byte_eqI; auto simp: bit_simps dest: bit_imp_le_length;
      simp add: numeral_2_eq_2 numeral_3_eq_3)+

lemma b64decode_b64encode: "b64decode (b64encode bs) = Some bs"
proof (induction bs rule: b64encode.induct)
  case (1 a b c rest)
  then show ?case
    by (simp add: and_3 and_15 and_63 b64_value_six_bits b64_char_six_bits regrouped_bytes)
next
  case (2 a b)
  show ?case
    by (simp add: and_3 and_15 and_63 b64_value_six_bits b64_char_six_bits regrouped_bytes)
next
  case (3 a)
  show ?case
    by (simp add: and_3 and_15 and_63 b64_value_six_bits b64_char_six_bits regrouped_bytes)
next
  case 4
  show ?case by simp
qed

section \<open>Properties\<close>

subsection \<open>C1\<close>

text \<open>
  C1 as stated fails. By the claim, a response whose \<^verbatim>\<open>parts[0]\<close> has no \<^verbatim>\<open>text\<close> key and whose
  candidate carries a \<^verbatim>\<open>finishReason\<close> would give the generation-stopped message. On
  \<^verbatim>\<open>{"candidates": [{"content": {"parts": [{}]}, "finishReason": "MAX_TOKENS"}]}\<close> the
  code returns the default of \<^verbatim>\<open>.get("text", ...)\<close> instead.
\<close>

theorem missing_text_counterexample:
  "normalize_text plain_builtins
     (JObject [(''candidates'', JArray [JObject
        [(''content'', JObject [(''parts'', JArray [JObject []])]),
         (''finishReason'', JString ''MAX_TOKENS'')]])])
     = Inr (JString ''No text found in the response.'')
   \<and> Inr (JString ''No text found in the response.'')
       \<noteq> (Inr (JString (stopped_message plain_builtins (JString ''MAX_TOKENS''))) :: exn + json)"
  by (simp add: normalize_text_def non_empty_def py_index_def stopped_message_def)

text \<open>
  C1, as amended. For every response whose candidates array is present and non-empty,
  where \<^verbatim>\<open>candidates[0].content.parts\<close> is present and non-empty, \<^verbatim>\<open>parts[0]\<close> is an object
  without a \<^verbatim>\<open>text\<close> key, and \<^verbatim>\<open>candidates[0]\<close> carries a \<^verbatim>\<open>finishReason\<close>, the text flow
  returns the fixed string \<^verbatim>\<open>No text found in the response.\<close>: the check of line 43 looks
  at \<^verbatim>\<open>content\<close> and \<^verbatim>\<open>parts\<close> only, and the missing \<^verbatim>\<open>text\<close> key is covered by the
  default of \<^verbatim>\<open>.get\<close>, so the \<^verbatim>\<open>finishReason\<close> branch is not reached.
\<close>

theorem missing_text_gives_default:
  assumes "map_of kvs ''candidates'' = Some (JArray (JObject c # cs))"
      and "map_of c ''content'' = Some (JObject ct)"
      and "map_of ct ''parts'' = Some (JArray (JObject p # ps))"
      and "map_of p ''text'' = None"
      and "map_of c ''finishReason'' = Some reason"
  shows "normalize_text B (JObject kvs) = Inr (JString ''No text found in the response.'')
         \<and> fst (call_gemini_api B api_url (server_answers 200 (JObject kvs)) prompt w)
             = Inr (JString ''No text found in the response.'')"
  using assms by (simp add: text_flow_answered normalize_text_first_part)

text \<open>The amended C1 at the response above.\<close>

theorem missing_text_gives_default_witness:
  "normalize_text plain_builtins
     (JObject [(''candidates'', JArray [JObject
        [(''content'', JObject [(''parts'', JArray [JObject []])]),
         (''finishReason'', JString ''MAX_TOKENS'')]])])
     = Inr (JString ''No text found in the response.'')
   \<and> fst (call_gemini_api plain_builtins ''https://example.invalid''
        (server_answers 200 (JObject [(''candidates'', JArray [JObject
        [(''content'', JObject [(''parts'', JArray [JObject []])]),
         (''finishReason'', JString ''MAX_TOKENS'')]])])) ''Why?'' fresh_world)
     = Inr (JString ''No text found in the response.'')"
  using missing_text_gives_default
    [of "[(''candidates'', JArray [JObject
        [(''content'', JObject [(''parts'', JArray [JObject []])]),
         (''finishReason'', JString ''MAX_TOKENS'')]])]"
        "[(''content'', JObject [(''parts'', JArray [JObject []])]),
         (''finishReason'', JString ''MAX_TOKENS'')]" "[]"
        "[(''parts'', JArray [JObject []])]" "[]" "[]" "JString ''MAX_TOKENS''"
        plain_builtins "''https://example.invalid''" "''Why?''" fresh_world]
  by simp

subsection \<open>C2\<close>

text \<open>
  C2. By the claim, the text flow returns one InferenceResult variant for every JSON value;
  the variant for extracted text carries a string, and \<^verbatim>\<open>call_gemini_api\<close> is annotated
  \<^verbatim>\<open>-> str\<close>. On \<^verbatim>\<open>{"candidates": [{"content": {"parts": [{"text": null}]}}]}\<close> line 44
  returns what \<^verbatim>\<open>.get\<close> finds under \<^verbatim>\<open>text\<close> without looking at its type: the function
  returns \<^verbatim>\<open>None\<close>, which is no string and none of the variants. No exception is raised.
\<close>

theorem null_text_returned_as_is:
  "call_gemini_api plain_builtins ''https://example.invalid''
     (server_answers 200
        (JObject [(''candidates'', JArray [JObject [(''content'',
           JObject [(''parts'', JArray [JObject [(''text'', JNull)]])])]])]))
     ''Why?'' fresh_world
   = (Inr JNull,
      \<lparr>posts = [gemini_request ''https://example.invalid'' (text_payload ''Why?'')],
       logged = [], chat_actions = [], reply_attempts = [], replies = []\<rparr>)"
  by (simp add: call_gemini_api_unfold server_answers_def raise_for_status_def
      response_json_def normalize_text_def non_empty_def py_index_def fresh_world_def)

subsection \<open>C3\<close>

text \<open>
  C3 as stated fails. By the claim, the image flow would return the generic failure message on every
  response that lacks a non-empty candidates array. On \<^verbatim>\<open>{"candidates": "none"}\<close> and on
  the body \<^verbatim>\<open>null\<close> a check raises \<^verbatim>\<open>TypeError\<close>, and the handler of line 89 returns its
  own message.
\<close>

theorem image_flow_counterexample:
  "fst (call_gemini_with_image plain_builtins ''https://example.invalid''
          (server_answers 200 (JObject [(''candidates'', JString ''none'')]))
          ''What is in this image?'' [255, 216, 255] fresh_world)
     = Inr (JString ''An error occurred: TypeError'')
   \<and> fst (call_gemini_with_image plain_builtins ''https://example.invalid''
          (server_answers 200 JNull) ''What is in this image?'' [255, 216, 255] fresh_world)
     = Inr (JString ''An error occurred: TypeError'')
   \<and> JString ''An error occurred: TypeError''
       \<noteq> JString ''Couldn't get a valid response from the AI.''"
  by (simp add: image_flow_answered normalize_image_def py_index_def plain_builtins_def)

text \<open>
  C3, as amended. The image flow only looks for the text. For every JSON response it
  returns the handler's message, the generic failure message, or what is stored under
  \<^verbatim>\<open>candidates[0].content.parts[0].text\<close> (the default of \<^verbatim>\<open>.get\<close> when the key is missing);
  no branch builds a generation-stopped or request-blocked message. On every JSON object
  whose \<^verbatim>\<open>candidates\<close> key is absent or holds an empty array it returns the generic failure
  message. On the response \<^verbatim>\<open>{"promptFeedback": {"blockReason": "SAFETY"}}\<close> the image flow
  returns the generic failure message and the text flow the request-blocked message.
\<close>

theorem image_flow_outcomes:
  "(\<exists>v. fst (call_gemini_with_image B api_url (server_answers 200 j) prompt image_bytes w) = Inr v
        \<and> ((\<exists>e. v = JString (''An error occurred: '' @ str_exn B e))
            \<or> v = JString ''Couldn't get a valid response from the AI.''
            \<or> (\<exists>kvs c cs ct p ps.
                  j = JObject kvs
                  \<and> map_of kvs ''candidates'' = Some (JArray (JObject c # cs))
                  \<and> map_of c ''content'' = Some (JObject ct)
                  \<and> map_of ct ''parts'' = Some (JArray (JObject p # ps))
                  \<and> v = (case map_of p ''text'' of
                           None \<Rightarrow> JString ''No response text found.''
                         | Some t \<Rightarrow> t))))
   \<and> (map_of obj ''candidates'' = None \<or> map_of obj ''candidates'' = Some (JArray [])
        \<longrightarrow> fst (call_gemini_with_image B api_url (server_answers 200 (JObject obj))
                    prompt image_bytes w)
             = Inr (JString ''Couldn't get a valid response from the AI.''))
   \<and> fst (call_gemini_with_image B api_url
             (server_answers 200
                (JObject [(''promptFeedback'', JObject [(''blockReason'', JString ''SAFETY'')])]))
             prompt image_bytes w)
       = Inr (JString ''Couldn't get a valid response from the AI.'')
   \<and> fst (call_gemini_api B api_url
             (server_answers 200
                (JObject [(''promptFeedback'', JObject [(''blockReason'', JString ''SAFETY'')])]))
             prompt w)
       = Inr (JString ''Request blocked: SAFETY.'')"
proof (intro conjI impI)
  show "\<exists>v. fst (call_gemini_with_image B api_url (server_answers 200 j) prompt image_bytes w) = Inr v
        \<and> ((\<exists>e. v = JString (''An error occurred: '' @ str_exn B e))
            \<or> v = JString ''Couldn't get a valid response from the AI.''
            \<or> (\<exists>kvs c cs ct p ps.
                  j = JObject kvs
                  \<and> map_of kvs ''candidates'' = Some (JArray (JObject c # cs))
                  \<and> map_of c ''content'' = Some (JObject ct)
                  \<and> map_of ct ''parts'' = Some (JArray (JObject p # ps))
                  \<and> v = (case map_of p ''text'' of
                           None \<Rightarrow> JString ''No response text found.''
                         | Some t \<Rightarrow> t)))"
  proof (cases "normalize_image j")
    case (Inl e)
    then show ?thesis by (auto simp: image_flow_answered)
  next
    case (Inr v)
    from normalize_image_results [OF Inr] Inr show ?thesis
      by (simp add: image_flow_answered)
  qed
next
  assume "map_of obj ''candidates'' = None \<or> map_of obj ''candidates'' = Some (JArray [])"
  then show "fst (call_gemini_with_image B api_url (server_answers 200 (JObject obj))
                    prompt image_bytes w)
             = Inr (JString ''Couldn't get a valid response from the AI.'')"
    by (simp add: image_flow_answered normalize_image_no_candidates)
next
  show "fst (call_gemini_with_image B api_url
             (server_answers 200
                (JObject [(''promptFeedback'', JObject [(''blockReason'', JString ''SAFETY'')])]))
             prompt image_bytes w)
       = Inr (JString ''Couldn't get a valid response from the AI.'')"
    by (simp add: image_flow_answered normalize_image_def)
next
  show "fst (call_gemini_api B api_url
             (server_answers 200
                (JObject [(''promptFeedback'', JObject [(''blockReason'', JString ''SAFETY'')])]))
             prompt w)
       = Inr (JString ''Request blocked: SAFETY.'')"
    by (simp add: text_flow_answered normalize_text_def blocked_message_def)
qed

text \<open>The amended C3 at a response whose candidates array is empty.\<close>

theorem image_flow_outcomes_witness:
  "fst (call_gemini_with_image plain_builtins ''https://example.invalid''
          (server_answers 200 (JObject [(''candidates'', JArray [])]))
          ''What is in this image?'' [255, 216, 255] fresh_world)
     = Inr (JString ''Couldn't get a valid response from the AI.'')
   \<and> fst (call_gemini_with_image plain_builtins ''https://example.invalid''
          (server_answers 200
             (JObject [(''promptFeedback'', JObject [(''blockReason'', JString ''SAFETY'')])]))
          ''What is in this image?'' [255, 216, 255] fresh_world)
     = Inr (JString ''Couldn't get a valid response from the AI.'')
   \<and> fst (call_gemini_api plain_builtins ''https://example.invalid''
          (server_answers 200
             (JObject [(''promptFeedback'', JObject [(''blockReason'', JString ''SAFETY'')])]))
          ''What is in this image?'' fresh_world)
     = Inr (JString ''Request blocked: SAFETY.'')"
  using image_flow_outcomes
    [of plain_builtins "''https://example.invalid''" "JObject [(''candidates'', JArray [])]"
        "''What is in this image?''" "[255, 216, 255]" fresh_world
        "[(''candidates'', JArray [])]"]
  by simp

subsection \<open>C4\<close>

text \<open>
  C4 as stated fails. By the claim, every status outside 200 to 299 would end in the handler. The
  status check of the requests library raises for 400 to 599 only: an answer with status
  300 and the body \<^verbatim>\<open>{}\<close> goes through the normalizer like a successful one, in both flows,
  and the handler logs nothing.
\<close>

theorem redirect_status_counterexample:
  "fst (call_gemini_api plain_builtins ''https://example.invalid''
          (server_answers 300 (JObject [])) ''Why?'' fresh_world)
     = Inr (JString ''Failed to get a valid response from the AI.'')
   \<and> fst (call_gemini_with_image plain_builtins ''https://example.invalid''
          (server_answers 300 (JObject [])) ''What is in this image?'' [255, 216, 255] fresh_world)
     = Inr (JString ''Couldn't get a valid response from the AI.'')
   \<and> logged (snd (call_gemini_api plain_builtins ''https://example.invalid''
          (server_answers 300 (JObject [])) ''Why?'' fresh_world))
     = []"
  by (simp add: call_gemini_api_unfold call_gemini_with_image_unfold server_answers_def
      raise_for_status_def response_json_def normalize_text_def normalize_image_def
      fresh_world_def)

text \<open>
  C4, as amended. For every transport-level failure of the post (it raises, as on a timeout
  or a connection error, or the answer has a status from 400 to 599), in the text call and
  in the image call alike and each on its own, the function returns the handler's string,
  which carries \<^verbatim>\<open>str(e)\<close> of the exception; exactly one request has been posted (no
  retry), one error record has been logged, and no exception leaves the function.
\<close>

theorem transport_failure_reported:
  "(transport_failure (net (posts w) (gemini_request api_url (text_payload prompt))) e
      \<longrightarrow> call_gemini_api B api_url net prompt w
           = (Inr (JString (''Sorry, an error occurred: '' @ str_exn B e)),
              w\<lparr>posts := posts w @ [gemini_request api_url (text_payload prompt)],
                logged := logged w
                  @ [(ERROR, ''Error during request to Gemini API: '' @ str_exn B e)]\<rparr>))
   \<and> (transport_failure
        (net' (posts w') (gemini_request api_url' (image_payload caption image_bytes))) e'
      \<longrightarrow> call_gemini_with_image B' api_url' net' caption image_bytes w'
           = (Inr (JString (''An error occurred: '' @ str_exn B' e')),
              w'\<lparr>posts := posts w' @ [gemini_request api_url' (image_payload caption image_bytes)],
                 logged := logged w'
                   @ [(ERROR, ''Error processing image: '' @ str_exn B' e')]\<rparr>))"
proof (intro conjI impI)
  assume "transport_failure (net (posts w) (gemini_request api_url (text_payload prompt))) e"
  then show "call_gemini_api B api_url net prompt w
           = (Inr (JString (''Sorry, an error occurred: '' @ str_exn B e)),
              w\<lparr>posts := posts w @ [gemini_request api_url (text_payload prompt)],
                logged := logged w
                  @ [(ERROR, ''Error during request to Gemini API: '' @ str_exn B e)]\<rparr>)"
    by (auto simp: call_gemini_api_unfold transport_failure_def raise_for_status_def
        split: sum.splits)
next
  assume "transport_failure
        (net' (posts w') (gemini_request api_url' (image_payload caption image_bytes))) e'"
  then show "call_gemini_with_image B' api_url' net' caption image_bytes w'
           = (Inr (JString (''An error occurred: '' @ str_exn B' e')),
              w'\<lparr>posts := posts w' @ [gemini_request api_url' (image_payload caption image_bytes)],
                 logged := logged w'
                   @ [(ERROR, ''Error processing image: '' @ str_exn B' e')]\<rparr>)"
    by (auto simp: call_gemini_with_image_unfold transport_failure_def raise_for_status_def
        split: sum.splits)
qed

text \<open>
  The amended C4 at a text call whose post is answered with status 503 and an image call
  whose post times out.
\<close>

theorem transport_failure_reported_witness:
  "call_gemini_api plain_builtins ''https://example.invalid''
       (server_answers 503 (JObject [])) ''Why?'' fresh_world
     = (Inr (JString ''Sorry, an error occurred: HTTPError''),
        \<lparr>posts = [gemini_request ''https://example.invalid'' (text_payload ''Why?'')],
         logged = [(ERROR, ''Error during request to Gemini API: HTTPError'')],
         chat_actions = [], reply_attempts = [], replies = []\<rparr>)
   \<and> call_gemini_with_image plain_builtins ''https://example.invalid''
       (network_raises Timeout) ''What is in this image?'' [255, 216, 255] fresh_world
     = (Inr (JString ''An error occurred: Timeout''),
        \<lparr>posts = [gemini_request ''https://example.invalid''
                    (image_payload ''What is in this image?'' [255, 216, 255])],
         logged = [(ERROR, ''Error processing image: Timeout'')],
         chat_actions = [], reply_attempts = [], replies = []\<rparr>)"
  using transport_failure_reported
    [where net = "server_answers 503 (JObject [])" and w = fresh_world
       and api_url = "''https://example.invalid''" and prompt = "''Why?''"
       and e = "HTTPError 503" and B = plain_builtins
       and net' = "network_raises Timeout" and w' = fresh_world
       and api_url' = "''https://example.invalid''" and caption = "''What is in this image?''"
       and image_bytes = "[255, 216, 255]" and e' = Timeout and B' = plain_builtins]
  by (simp add: transport_failure_def server_answers_def network_raises_def plain_builtins_def
      fresh_world_def)

subsection \<open>C5\<close>

text \<open>
  C5. A failing reply is caught, logged and replaced by a fallback reply in
  \<^verbatim>\<open>handle_message\<close> only; \<^verbatim>\<open>handle_image\<close> awaits \<^verbatim>\<open>reply_text\<close> outside any \<^verbatim>\<open>try\<close>. On a
  chat platform that turns down the first reply, a photo message ends with the exception
  leaving the handler, nothing logged and nothing delivered, where a text message ends
  normally with the fallback reply delivered.
\<close>

theorem handle_image_lets_reply_failure_out:
  "handle_image plain_builtins ''https://example.invalid''
          (server_answers 200 (JObject [(''candidates'', JArray [JObject [(''content'',
             JObject [(''parts'', JArray [JObject [(''text'', JString ''A cat'')]])])]])]))
          first_reply_rejected
          \<lparr>message_text = [], message_photo = [''small'', ''large''], effective_chat_id = 7,
           effective_user_username = Some ''ann''\<rparr>
          fresh_world
     = (Inl (TelegramError ''Bad Request''),
        \<lparr>posts = [gemini_request ''https://example.invalid''
                    (image_payload ''What is in this image?'' [255, 216, 255])],
         logged = [], chat_actions = [7], reply_attempts = [JString ''A cat''], replies = []\<rparr>)
   \<and> handle_message plain_builtins ''https://example.invalid''
          (server_answers 200 (JObject [(''candidates'', JArray [JObject [(''content'',
             JObject [(''parts'', JArray [JObject [(''text'', JString ''A cat'')]])])]])]))
          first_reply_rejected
          \<lparr>message_text = ''What purrs?'', message_photo = [], effective_chat_id = 7,
           effective_user_username = Some ''ann''\<rparr>
          fresh_world
     = (Inr (),
        \<lparr>posts = [gemini_request ''https://example.invalid'' (text_payload ''What purrs?'')],
         logged = [(INFO, ''Text from ann: What purrs?''),
                   (ERROR, ''Failed to send reply message: Bad Request'')],
         chat_actions = [7],
         reply_attempts = [JString ''A cat'',
                           JString ''An error occurred while sending the reply.''],
         replies = [JString ''An error occurred while sending the reply.'']\<rparr>)"
  by (simp add: handle_image_def handle_message_def first_reply_rejected_def fresh_world_def
      server_answers_def plain_builtins_def call_gemini_with_image_def call_gemini_api_def
      io_bind_def try_except_def lift_def requests_post_def raise_for_status_def
      response_json_def normalize_image_def normalize_text_def non_empty_def py_index_def
      message_reply_text_def bot_send_chat_action_def logger_def Let_def)

subsection \<open>C6\<close>

text \<open>
  C6. For every prompt and every image, the payload of the image call holds exactly two
  parts, first the text part with the prompt and then the inline-data part; decoding the
  Base64 text of the inline-data part gives back exactly the image bytes; and this payload
  is what \<^verbatim>\<open>call_gemini_with_image\<close> posts. The MIME type is not an argument of the
  function: the payload always says \<^verbatim>\<open>image/jpeg\<close>.
\<close>

theorem image_payload_round_trip:
  "image_payload prompt image_bytes =
     JObject [(''contents'', JArray [JObject [(''parts'',
       JArray [JObject [(''text'', JString prompt)],
               JObject [(''inlineData'',
                 JObject [(''mimeType'', JString ''image/jpeg''),
                          (''data'', JString (b64encode image_bytes))])]])]])]
   \<and> b64decode (b64encode image_bytes) = Some image_bytes
   \<and> posts (snd (call_gemini_with_image B api_url net prompt image_bytes w))
       = posts w @ [gemini_request api_url (image_payload prompt image_bytes)]"
  by (simp add: image_payload_def b64decode_b64encode call_gemini_with_image_unfold
      split: sum.splits)

subsection \<open>C7\<close>

text \<open>
  C7. For a response in which \<^verbatim>\<open>candidates[0].content.parts[0].text\<close> is a string, \<^verbatim>\<open>hello\<close>
  in the claim, the text flow returns exactly that string, from the normalizer and so from
  \<^verbatim>\<open>call_gemini_api\<close>.
\<close>

theorem text_part_returned:
  assumes "map_of kvs ''candidates'' = Some (JArray (JObject c # cs))"
      and "map_of c ''content'' = Some (JObject ct)"
      and "map_of ct ''parts'' = Some (JArray (JObject p # ps))"
      and "map_of p ''text'' = Some (JString s)"
  shows "normalize_text B (JObject kvs) = Inr (JString s)
         \<and> fst (call_gemini_api B api_url (server_answers 200 (JObject kvs)) prompt w)
             = Inr (JString s)"
  using assms by (simp add: text_flow_answered normalize_text_first_part)

text \<open>C7 at the response of the claim, with the text \<^verbatim>\<open>hello\<close>.\<close>

theorem text_part_returned_witness:
  "normalize_text plain_builtins
     (JObject [(''candidates'', JArray [JObject
        [(''content'', JObject [(''parts'', JArray [JObject [(''text'', JString ''hello'')]])])]])])
     = Inr (JString ''hello'')
   \<and> fst (call_gemini_api plain_builtins ''https://example.invalid''
        (server_answers 200 (JObject [(''candidates'', JArray [JObject
        [(''content'', JObject [(''parts'', JArray [JObject [(''text'', JString ''hello'')]])])]])]))
        ''Say hello'' fresh_world)
     = Inr (JString ''hello'')"
  using text_part_returned
    [of "[(''candidates'', JArray [JObject
        [(''content'', JObject [(''parts'', JArray [JObject [(''text'', JString ''hello'')]])])]])]"
        "[(''content'', JObject [(''parts'', JArray [JObject [(''text'', JString ''hello'')]])])]" "[]"
        "[(''parts'', JArray [JObject [(''text'', JString ''hello'')]])]"
        "[(''text'', JString ''hello'')]" "[]" "''hello''"
        plain_builtins "''https://example.invalid''" "''Say hello''" fresh_world]
  by simp

subsection \<open>C8\<close>

text \<open>
  C8 as stated fails. By the claim, every response whose first candidate has the finish
  reason \<^verbatim>\<open>SAFETY\<close> and no parts would give the generation-stopped message. On
  \<^verbatim>\<open>{"candidates": [{"finishReason": "SAFETY", "content": null}]}\<close> the candidate has no
  parts, the test \<^verbatim>\<open>"parts" in candidate["content"]\<close> of line 43 raises \<^verbatim>\<open>TypeError\<close>, and
  the handler of line 54 returns its own message.
\<close>

theorem null_content_counterexample:
  "normalize_text plain_builtins
     (JObject [(''candidates'', JArray [JObject
        [(''finishReason'', JString ''SAFETY''), (''content'', JNull)]])])
     = Inl TypeError
   \<and> fst (call_gemini_api plain_builtins ''https://example.invalid''
        (server_answers 200 (JObject [(''candidates'', JArray [JObject
           [(''finishReason'', JString ''SAFETY''), (''content'', JNull)]])]))
        ''Why?'' fresh_world)
     = Inr (JString ''Sorry, an error occurred: TypeError'')
   \<and> JString ''Sorry, an error occurred: TypeError''
       \<noteq> JString ''Generation stopped: SAFETY. Try a different question.''"
  by (simp add: text_flow_answered normalize_text_def non_empty_def py_index_def
      plain_builtins_def)

text \<open>
  C8, as amended. For a response in which \<^verbatim>\<open>candidates[0].finishReason\<close> is \<^verbatim>\<open>SAFETY\<close> and
  the candidate has no parts in one of these three ways: it has no \<^verbatim>\<open>content\<close> key, its
  \<^verbatim>\<open>content\<close> is an object without a \<^verbatim>\<open>parts\<close> key, or its \<^verbatim>\<open>content\<close> is an object whose
  \<^verbatim>\<open>parts\<close> is an empty array, the text flow returns the generation-stopped message for
  \<^verbatim>\<open>SAFETY\<close>, which says that generation stopped and suggests a different question.
\<close>

theorem finish_reason_without_parts:
  assumes "map_of kvs ''candidates'' = Some (JArray (JObject c # cs))"
      and "map_of c ''finishReason'' = Some (JString ''SAFETY'')"
      and "map_of c ''content'' = None
           \<or> (map_of c ''content'' = Some (JObject ct)
               \<and> (map_of ct ''parts'' = None \<or> map_of ct ''parts'' = Some (JArray [])))"
  shows "normalize_text B (JObject kvs)
           = Inr (JString ''Generation stopped: SAFETY. Try a different question.'')
         \<and> fst (call_gemini_api B api_url (server_answers 200 (JObject kvs)) prompt w)
             = Inr (JString ''Generation stopped: SAFETY. Try a different question.'')"
proof -
  from assms have "normalize_text B (JObject kvs)
           = Inr (JString ''Generation stopped: SAFETY. Try a different question.'')"
    by (auto simp: normalize_text_def non_empty_def py_index_def stopped_message_def)
  then show ?thesis by (simp add: text_flow_answered)
qed

text \<open>The amended C8 at \<^verbatim>\<open>{"candidates": [{"finishReason": "SAFETY"}]}\<close>.\<close>

theorem finish_reason_without_parts_witness:
  "normalize_text plain_builtins
     (JObject [(''candidates'', JArray [JObject [(''finishReason'', JString ''SAFETY'')]])])
     = Inr (JString ''Generation stopped: SAFETY. Try a different question.'')
   \<and> fst (call_gemini_api plain_builtins ''https://example.invalid''
        (server_answers 200
           (JObject [(''candidates'', JArray [JObject [(''finishReason'', JString ''SAFETY'')]])]))
        ''Why?'' fresh_world)
     = Inr (JString ''Generation stopped: SAFETY. Try a different question.'')"
  using finish_reason_without_parts
    [of "[(''candidates'', JArray [JObject [(''finishReason'', JString ''SAFETY'')]])]"
        "[(''finishReason'', JString ''SAFETY'')]" "[]" "[]"
        plain_builtins "''https://example.invalid''" "''Why?''" fresh_world]
  by simp

subsection \<open>C9\<close>

text \<open>
  C9. For a response in which \<^verbatim>\<open>promptFeedback.blockReason\<close> is \<^verbatim>\<open>OTHER\<close> and no
  \<^verbatim>\<open>candidates\<close> key is present, the text flow returns the request-blocked message for
  \<^verbatim>\<open>OTHER\<close>.
\<close>

theorem block_reason_without_candidates:
  assumes "map_of kvs ''candidates'' = None"
      and "map_of kvs ''promptFeedback'' = Some (JObject fb)"
      and "map_of fb ''blockReason'' = Some (JString ''OTHER'')"
  shows "normalize_text B (JObject kvs) = Inr (JString ''Request blocked: OTHER.'')
         \<and> fst (call_gemini_api B api_url (server_answers 200 (JObject kvs)) prompt w)
             = Inr (JString ''Request blocked: OTHER.'')"
proof -
  from assms have "normalize_text B (JObject kvs) = Inr (JString ''Request blocked: OTHER.'')"
    by (simp add: normalize_text_def blocked_message_def)
  then show ?thesis by (simp add: text_flow_answered)
qed

text \<open>C9 at \<^verbatim>\<open>{"promptFeedback": {"blockReason": "OTHER"}}\<close>.\<close>

theorem block_reason_without_candidates_witness:
  "normalize_text plain_builtins
     (JObject [(''promptFeedback'', JObject [(''blockReason'', JString ''OTHER'')])])
     = Inr (JString ''Request blocked: OTHER.'')
   \<and> fst (call_gemini_api plain_builtins ''https://example.invalid''
        (server_answers 200
           (JObject [(''promptFeedback'', JObject [(''blockReason'', JString ''OTHER'')])]))
        ''Why?'' fresh_world)
     = Inr (JString ''Request blocked: OTHER.'')"
  using block_reason_without_candidates
    [of "[(''promptFeedback'', JObject [(''blockReason'', JString ''OTHER'')])]"
        "[(''blockReason'', JString ''OTHER'')]"
        plain_builtins "''https://example.invalid''" "''Why?''" fresh_world]
  by simp

subsection \<open>C10\<close>

text \<open>
  C10. In the text flow, when the answer passes the status check and decoding the body or
  normalizing it raises an exception, the handler of line 54 takes it: the function returns
  \<^verbatim>\<open>Sorry, an error occurred: \<close> followed by \<^verbatim>\<open>str(e)\<close> and logs the same record as for a
  failed post. Result and effects are those of a post that raises the same exception, and
  the result is neither of the two malformed-response diagnostics.
\<close>

theorem body_failure_reported_like_transport_failure:
  assumes "net (posts w) (gemini_request api_url (text_payload prompt)) = Inr r"
      and "raise_for_status r = Inr ()"
      and "and_then (response_json r) (normalize_text B) = Inl e"
  shows "call_gemini_api B api_url net prompt w
           = (Inr (JString (''Sorry, an error occurred: '' @ str_exn B e)),
              w\<lparr>posts := posts w @ [gemini_request api_url (text_payload prompt)],
                logged := logged w
                  @ [(ERROR, ''Error during request to Gemini API: '' @ str_exn B e)]\<rparr>)
         \<and> call_gemini_api B api_url net prompt w
             = call_gemini_api B api_url (network_raises e) prompt w
         \<and> fst (call_gemini_api B api_url net prompt w)
             \<noteq> Inr (JString ''Failed to process the response from the AI (unexpected structure).'')
         \<and> fst (call_gemini_api B api_url net prompt w)
             \<noteq> Inr (JString ''Failed to get a valid response from the AI.'')"
  using assms by (simp add: call_gemini_api_unfold network_raises_def)

text \<open>C10 at an answer whose body is the number 5: the membership test raises.\<close>

theorem body_failure_reported_like_transport_failure_witness:
  "call_gemini_api plain_builtins ''https://example.invalid'' (server_answers 200 (JInt 5))
       ''Why?'' fresh_world
     = (Inr (JString ''Sorry, an error occurred: TypeError''),
        fresh_world\<lparr>posts := posts fresh_world
             @ [gemini_request ''https://example.invalid'' (text_payload ''Why?'')],
           logged := logged fresh_world
             @ [(ERROR, ''Error during request to Gemini API: TypeError'')]\<rparr>)
   \<and> call_gemini_api plain_builtins ''https://example.invalid'' (server_answers 200 (JInt 5))
         ''Why?'' fresh_world
       = call_gemini_api plain_builtins ''https://example.invalid'' (network_raises TypeError)
           ''Why?'' fresh_world"
proof -
  have answered: "server_answers 200 (JInt 5) (posts fresh_world)
        (gemini_request ''https://example.invalid'' (text_payload ''Why?''))
      = Inr \<lparr>status_code = 200, json_body = Some (JInt 5)\<rparr>"
    by (simp add: server_answers_def)
  have status: "raise_for_status \<lparr>status_code = 200, json_body = Some (JInt 5)\<rparr> = Inr ()"
    by (simp add: raise_for_status_def)
  have raised: "and_then (response_json \<lparr>status_code = 200, json_body = Some (JInt 5)\<rparr>)
        (normalize_text plain_builtins) = Inl TypeError"
    by (simp add: response_json_def normalize_text_def)
  have described: "str_exn plain_builtins TypeError = ''TypeError''"
    by (simp add: plain_builtins_def)
  note run = body_failure_reported_like_transport_failure
         [of "server_answers 200 (JInt 5)" fresh_world "''https://example.invalid''" "''Why?''"
             "\<lparr>status_code = 200, json_body = Some (JInt 5)\<rparr>" plain_builtins TypeError,
          OF answered status raised]
  have result: "call_gemini_api plain_builtins ''https://example.invalid''
        (server_answers 200 (JInt 5)) ''Why?'' fresh_world
      = (Inr (JString ''Sorry, an error occurred: TypeError''),
         fresh_world\<lparr>posts := posts fresh_world
              @ [gemini_request ''https://example.invalid'' (text_payload ''Why?'')],
            logged := logged fresh_world
              @ [(ERROR, ''Error during request to Gemini API: TypeError'')]\<rparr>)"
    using run [THEN conjunct1] by (simp add: described)
  show ?thesis
    by (rule conjI [OF result run [THEN conjunct2, THEN conjunct1]])
qed

end
